theory Spec2Isabelle
  imports Complex_Main
begin

section \<open>The DHT11 metrics web server (main.py)\<close>

text \<open>
  main.py is one MicroPython script: a start-up sequence (status LED, MAC address, Wi-Fi
  credentials from secrets.py, Wi-Fi connection, listening socket), the function
  \<open>read_dht_data\<close>, and an endless loop that serves one client per iteration.

  Everything the script does, it does through calls into the board's libraries
  (\<open>network\<close>, \<open>socket\<close>, \<open>dht\<close>, \<open>time\<close>, \<open>machine\<close>). The embedding gives each such call
  its result as an input: what the call returned, or the exception it raised. What the
  script does to the outside world is collected in a chronological trace of events.
  Console output (\<open>print\<close>) is not part of the trace.
\<close>

subsection \<open>Exceptions and call results\<close>

text \<open>
  The exceptions that matter to the script's handlers. \<open>except OSError\<close> catches
  \<open>OSError\<close>, \<open>except ImportError\<close> catches \<open>ImportError\<close>, and \<open>except Exception\<close>
  catches every exception but those that derive from \<open>BaseException\<close> only
  (\<open>KeyboardInterrupt\<close>, \<open>SystemExit\<close>).
\<close>

datatype exn =
    OSError
  | ImportError
  | AttributeError
  | UnicodeError
  | TypeError
  | ValueError
  | MemoryError
  | KeyboardInterrupt
  | SystemExit

fun is_OSError :: "exn \<Rightarrow> bool" where
  "is_OSError OSError = True"
| "is_OSError _ = False"

fun is_ImportError :: "exn \<Rightarrow> bool" where
  "is_ImportError ImportError = True"
| "is_ImportError _ = False"

fun is_Exception :: "exn \<Rightarrow> bool" where
  "is_Exception KeyboardInterrupt = False"
| "is_Exception SystemExit = False"
| "is_Exception _ = True"

datatype 'a outcome = Returns 'a | Raises exn

subsection \<open>Formatting numbers\<close>

text \<open>
  \<open>str_nat\<close> and \<open>str_int\<close> are Python's \<open>str\<close> on whole numbers, which is what
  \<open>{current_time}\<close> in an f-string prints: decimal digits, with a leading minus sign
  for a negative number.
\<close>

definition digit_char :: "nat \<Rightarrow> char" where
  "digit_char d = ''0123456789'' ! d"

fun str_nat :: "nat \<Rightarrow> string" where
  "str_nat n = (if n < 10 then [digit_char n] else str_nat (n div 10) @ [digit_char (n mod 10)])"

declare str_nat.simps [simp del]

definition str_int :: "int \<Rightarrow> string" where
  "str_int i = (if i < 0 then CHR ''-'' # str_nat (nat (- i)) else str_nat (nat i))"

text \<open>
  A sensor value is a Python number (the DHT11 driver returns whole numbers, the DHT22
  driver multiples of a tenth), taken here at its exact value as a rational. The format
  specification \<open>.1f\<close> prints such a value with one digit after the decimal point,
  rounding to the nearest tenth and a tie to the even neighbour, below a minus sign when
  the value is negative.
\<close>

definition round_half_even :: "rat \<Rightarrow> nat" where
  "round_half_even q =
     (let f = nat \<lfloor>q\<rfloor>; r = q - of_nat f
      in if r < 1 / 2 then f
         else if 1 / 2 < r then f + 1
         else if even f then f else f + 1)"

definition format_1f :: "rat \<Rightarrow> string" where
  "format_1f q =
     (let n = round_half_even (\<bar>q\<bar> * 10)
      in (if q < 0 then ''-'' else '''') @ str_nat (n div 10) @ ''.'' @ [digit_char (n mod 10)])"

subsection \<open>read_dht_data (lines 80-88)\<close>

text \<open>
  The results of the three driver calls of one measurement: \<open>sensor.measure()\<close>,
  \<open>sensor.temperature()\<close>, \<open>sensor.humidity()\<close>.
\<close>

record sensor_env =
  e_measure :: "unit outcome"
  e_temperature :: "rat outcome"
  e_humidity :: "rat outcome"

text \<open>
  The body of the \<open>try\<close>: the first call that raises ends it. A later call is then
  never made.
\<close>

definition measure_and_read :: "'a sensor_env_scheme \<Rightarrow> (rat option \<times> rat option) outcome" where
  "measure_and_read env =
     (case e_measure env of
        Raises e \<Rightarrow> Raises e
      | Returns _ \<Rightarrow>
          (case e_temperature env of
             Raises e \<Rightarrow> Raises e
           | Returns raw \<Rightarrow>
               (let temp = raw - 20
                in case e_humidity env of
                     Raises e \<Rightarrow> Raises e
                   | Returns hum \<Rightarrow> Returns (Some temp, Some hum))))"

text \<open>
  \<open>except OSError\<close> turns an \<open>OSError\<close> into the pair \<open>(None, None)\<close>; any other
  exception leaves the function.
\<close>

definition read_dht_data :: "'a sensor_env_scheme \<Rightarrow> (rat option \<times> rat option) outcome" where
  "read_dht_data env =
     (case measure_and_read env of
        Raises e \<Rightarrow> if is_OSError e then Returns (None, None) else Raises e
      | Returns r \<Rightarrow> Returns r)"

subsection \<open>The Prometheus text (lines 114-137)\<close>

text \<open>
  The two f-strings of the main loop, character for character. Each is a triple-quoted
  literal, so it starts with the line break that follows the opening quotes. The first
  is used when both \<open>temp\<close> and \<open>hum\<close> are \<open>None\<close>, with \<open>ts\<close> the printed timestamp; the
  second otherwise, with \<open>tv\<close> and \<open>hv\<close> the printed temperature and humidity.
\<close>

definition nan_output :: "string \<Rightarrow> string" where
  \<open>nan_output ts =
     ''\<newline>\<newline># HELP temperature Temperature from DHT11 sensor\<newline># TYPE temperature gauge\<newline>\<newline>temperature{sensor="dht11",location="GH_trial"} NaN '' @ ts @
     ''\<newline>\<newline>\<newline># HELP Humidity Temperature from DHT11 sensor\<newline># TYPE Humidity gauge\<newline>humidity{sensor="dht11",location="GH_trial"} NaN '' @ ts @
     ''\<newline>''\<close>

definition value_output :: "string \<Rightarrow> string \<Rightarrow> string \<Rightarrow> string" where
  \<open>value_output tv hv ts =
     ''\<newline># HELP temperature Temperature from DHT11 sensor\<newline># TYPE temperature gauge\<newline>temperature{sensor="dht11",location="GH_trial"} '' @ tv @ '' '' @ ts @
     ''\<newline>\<newline># HELP Humidity Temperature from DHT11 sensor\<newline># TYPE Humidity gauge\<newline>humidity{sensor="dht11",location="GH_trial"} '' @ hv @ '' '' @ ts @
     ''\<newline>\<newline>''\<close>

text \<open>
  \<open>{temp:.1f}\<close> on \<open>None\<close> raises \<open>TypeError\<close>; the f-string formats \<open>temp\<close> before
  \<open>hum\<close>.
\<close>

definition format_field :: "rat option \<Rightarrow> string outcome" where
  "format_field v = (case v of None \<Rightarrow> Raises TypeError | Some q \<Rightarrow> Returns (format_1f q))"

definition prometheus_output :: "rat option \<Rightarrow> rat option \<Rightarrow> int \<Rightarrow> string outcome" where
  "prometheus_output temp hum current_time =
     (if temp = None \<and> hum = None then Returns (nan_output (str_int current_time))
      else
        (case format_field temp of
           Raises e \<Rightarrow> Raises e
         | Returns tv \<Rightarrow>
             (case format_field hum of
                Raises e \<Rightarrow> Raises e
              | Returns hv \<Rightarrow> Returns (value_output tv hv (str_int current_time)))))"

subsection \<open>The outside world\<close>

text \<open>
  A byte string is a list of \<open>char\<close> (a \<open>char\<close> is a byte), and a Python \<open>str\<close> is
  held as its UTF-8 bytes, so \<open>encode\<close> changes nothing. A connection object is named
  by a number.
\<close>

type_synonym bytes = string
type_synonym conn = nat

definition encode :: "string \<Rightarrow> bytes" where
  "encode s = s"

text \<open>
  What the script does to the outside world, one event per call, in the order of the
  calls: the status LED, the Wi-Fi interface, the one-second sleep of the waiting loops,
  the listening socket, and the client connections. \<open>Accepted\<close> is entered when
  \<open>s.accept()\<close> has returned a connection; \<open>Send\<close> and \<open>Close\<close> are entered when
  \<open>conn.send\<close> and \<open>conn.close\<close> are called, whatever the call then does.
\<close>

datatype event =
    LedOff
  | LedOn
  | WlanActive
  | WlanConnect string string
  | Sleep
  | Bind
  | Listen
  | Accepted conn string
  | Send conn bytes
  | Close conn

text \<open>
  The script's global variables that outlive a statement and are read again, together
  with the trace so far.
\<close>

record state =
  ssid :: string
  password :: string
  ip_address :: string
  trace :: "event list"

definition emit :: "event \<Rightarrow> state \<Rightarrow> state" where
  "emit ev st = st\<lparr>trace := trace st @ [ev]\<rparr>"

text \<open>
  Where a piece of the script ends: \<open>Next\<close>, it is done and the script goes on with the
  state given; \<open>Halt\<close>, an exception that nothing catches has ended the process, after
  the trace given; \<open>Stuck\<close>, the script is still in a waiting loop when the recorded
  answers of \<open>wlan.isconnected()\<close> run out.
\<close>

datatype result = Next state | Halt exn "event list" | Stuck "event list"

subsection \<open>Waiting for the Wi-Fi link (lines 65-66 and 97-98)\<close>

text \<open>
  \<open>while not wlan.isconnected(): time.sleep(1)\<close>. The list holds the answers of the
  successive calls of \<open>wlan.isconnected()\<close>. The loop may never end: a list without a
  \<open>True\<close> leaves it waiting.
\<close>

fun wait_connected :: "bool list \<Rightarrow> state \<Rightarrow> result" where
  "wait_connected [] st = Stuck (trace st)"
| "wait_connected (up # polls) st =
     (if up then Next st else wait_connected polls (emit Sleep st))"

subsection \<open>One iteration of the main loop (lines 91-148)\<close>

text \<open>
  The results of the library calls of one iteration, in the order of the calls:
  \<open>wlan.isconnected()\<close> of line 93, \<open>wlan.connect\<close>, the answers of
  \<open>wlan.isconnected()\<close> in the waiting loop, \<open>wlan.ifconfig()[0]\<close>, \<open>s.accept()\<close>,
  \<open>conn.recv(1024)\<close>, the three sensor calls (inherited from \<open>sensor_env\<close>),
  \<open>int(time.time())\<close>, the two calls of \<open>conn.send\<close> and \<open>conn.close()\<close>.
\<close>

record iter_env = sensor_env +
  e_isconnected :: bool
  e_connect :: "unit outcome"
  e_polls :: "bool list"
  e_ifconfig :: string
  e_accept :: "(conn \<times> string) outcome"
  e_recv :: "bytes outcome"
  e_time :: int
  e_send_header :: "nat outcome"
  e_send_body :: "nat outcome"
  e_close :: "unit outcome"

text \<open>
  The decoder behind \<open>bytes.decode('utf-8')\<close> belongs to the interpreter, not to the
  script, and is a parameter of the embedding: it returns the text or raises.
\<close>

type_synonym decoder = "bytes \<Rightarrow> string outcome"

text \<open>Lines 93-102: the link check, which stands before the \<open>try\<close>.\<close>

definition check_link :: "iter_env \<Rightarrow> state \<Rightarrow> result" where
  "check_link env st =
     (if \<not> e_isconnected env then
        (let st1 = emit LedOff st;
             st2 = emit (WlanConnect (ssid st1) (password st1)) st1
         in case e_connect env of
              Raises e \<Rightarrow> Halt e (trace st2)
            | Returns _ \<Rightarrow>
                (case wait_connected (e_polls env) st2 of
                   Next st3 \<Rightarrow> Next ((emit LedOn st3)\<lparr>ip_address := e_ifconfig env\<rparr>)
                 | r \<Rightarrow> r))
      else Next st)"

text \<open>
  Lines 105-141: the body of the \<open>try\<close>. It ends normally (\<open>None\<close>) or with the
  exception raised by the first failing call (\<open>Some e\<close>); the state holds what had been
  done by then.
\<close>

definition http_header :: string where
  "http_header = ''HTTP/1.0 200 OK'' @ [CHR 0x0D, CHR 0x0A] @ ''Content-type: text/plain''
     @ [CHR 0x0D, CHR 0x0A, CHR 0x0D, CHR 0x0A]"

definition serve_client :: "decoder \<Rightarrow> iter_env \<Rightarrow> state \<Rightarrow> state \<times> exn option" where
  "serve_client decode env st =
     (case e_accept env of
        Raises e \<Rightarrow> (st, Some e)
      | Returns (conn, addr) \<Rightarrow>
     (let st1 = emit (Accepted conn addr) st in
      case e_recv env of
        Raises e \<Rightarrow> (st1, Some e)
      | Returns received \<Rightarrow>
     (case decode received of
        Raises e \<Rightarrow> (st1, Some e)
      | Returns request \<Rightarrow>
     (case read_dht_data env of
        Raises e \<Rightarrow> (st1, Some e)
      | Returns (temp, hum) \<Rightarrow>
     (let current_time = e_time env in
      case prometheus_output temp hum current_time of
        Raises e \<Rightarrow> (st1, Some e)
      | Returns output \<Rightarrow>
     (let st2 = emit (Send conn http_header) st1 in
      case e_send_header env of
        Raises e \<Rightarrow> (st2, Some e)
      | Returns _ \<Rightarrow>
     (let st3 = emit (Send conn (encode output)) st2 in
      case e_send_body env of
        Raises e \<Rightarrow> (st3, Some e)
      | Returns _ \<Rightarrow>
     (let st4 = emit (Close conn) st3 in
      case e_close env of
        Raises e \<Rightarrow> (st4, Some e)
      | Returns _ \<Rightarrow> (st4, None)))))))))"

text \<open>
  Lines 104 and 143-148: the \<open>try\<close> with its two handlers. Both handlers print and
  \<open>continue\<close>; an exception that is no \<open>Exception\<close> passes both and ends the process.
\<close>

definition try_serve :: "decoder \<Rightarrow> iter_env \<Rightarrow> state \<Rightarrow> result" where
  "try_serve decode env st =
     (case serve_client decode env st of
        (st', None) \<Rightarrow> Next st'
      | (st', Some e) \<Rightarrow>
          if is_OSError e then Next st'
          else if is_Exception e then Next st'
          else Halt e (trace st'))"

definition iteration :: "decoder \<Rightarrow> iter_env \<Rightarrow> state \<Rightarrow> result" where
  "iteration decode env st =
     (case check_link env st of
        Next st1 \<Rightarrow> try_serve decode env st1
      | r \<Rightarrow> r)"

text \<open>
  \<open>while True\<close>, run over the calls' results of finitely many iterations. \<open>Next\<close> says
  that the loop stands at the head of its next iteration.
\<close>

fun main_loop :: "decoder \<Rightarrow> iter_env list \<Rightarrow> state \<Rightarrow> result" where
  "main_loop decode [] st = Next st"
| "main_loop decode (env # envs) st =
     (case iteration decode env st of
        Next st' \<Rightarrow> main_loop decode envs st'
      | r \<Rightarrow> r)"

subsection \<open>Start-up (lines 31-77)\<close>

text \<open>
  The results of the library calls of the start-up: \<open>wlan.config('mac')\<close>, the import of
  \<open>secrets\<close> with the reading of its \<open>ssid\<close> and \<open>password\<close>, \<open>wlan.connect\<close>, the
  answers of \<open>wlan.isconnected()\<close>, \<open>wlan.ifconfig()[0]\<close>, \<open>s.bind\<close> and \<open>s.listen\<close>.
\<close>

record boot_env =
  b_mac :: "bytes outcome"
  b_secrets :: "(string \<times> string) outcome"
  b_connect :: "unit outcome"
  b_polls :: "bool list"
  b_ifconfig :: string
  b_bind :: "unit outcome"
  b_listen :: "unit outcome"

text \<open>
  Lines 61-77, entered with the credentials: switch the interface on, connect, wait
  for the link, LED on, bind and listen.
\<close>

definition connect_and_listen :: "boot_env \<Rightarrow> state \<Rightarrow> result" where
  "connect_and_listen env st =
     (let st1 = emit WlanActive st;
          st2 = emit (WlanConnect (ssid st1) (password st1)) st1
      in case b_connect env of
           Raises e \<Rightarrow> Halt e (trace st2)
         | Returns _ \<Rightarrow>
             (case wait_connected (b_polls env) st2 of
                Next st3 \<Rightarrow>
                  (let st4 = (emit LedOn st3)\<lparr>ip_address := b_ifconfig env\<rparr>;
                       st5 = emit Bind st4
                   in case b_bind env of
                        Raises e \<Rightarrow> Halt e (trace st5)
                      | Returns _ \<Rightarrow>
                          (let st6 = emit Listen st5
                           in case b_listen env of
                                Raises e \<Rightarrow> Halt e (trace st6)
                              | Returns _ \<Rightarrow> Next st6))
              | r \<Rightarrow> r))"

text \<open>
  Lines 31-55: LED off; the MAC address, where \<open>except OSError\<close> prints and goes on;
  the credentials, where \<open>except ImportError\<close> prints and raises again, and any other
  exception is not caught at all.
\<close>

definition startup :: "boot_env \<Rightarrow> result" where
  "startup env =
     (let tr = [LedOff] in
      case (case b_mac env of
              Raises e \<Rightarrow> if is_OSError e then None else Some e
            | Returns _ \<Rightarrow> None) of
        Some e \<Rightarrow> Halt e tr
      | None \<Rightarrow>
          (case b_secrets env of
             Raises e \<Rightarrow> if is_ImportError e then Halt e tr else Halt e tr
           | Returns (s, p) \<Rightarrow>
               connect_and_listen env \<lparr>ssid = s, password = p, ip_address = [], trace = tr\<rparr>))"

definition program :: "decoder \<Rightarrow> boot_env \<Rightarrow> iter_env list \<Rightarrow> result" where
  "program decode boot envs =
     (case startup boot of
        Next st \<Rightarrow> main_loop decode envs st
      | r \<Rightarrow> r)"

subsection \<open>Notions used to state the properties\<close>

text \<open>
  The lines of a text, as \<open>text.split('\n')\<close> gives them, the lines that are not
  empty, and a list of lines put together again with line breaks between them.
\<close>

fun split_lines :: "string \<Rightarrow> string list" where
  "split_lines [] = [[]]"
| "split_lines (c # cs) =
     (if c = CHR 0x0A then [] # split_lines cs
      else (case split_lines cs of
              [] \<Rightarrow> [[c]]
            | l # ls \<Rightarrow> (c # l) # ls))"

definition nonblank_lines :: "string \<Rightarrow> string list" where
  "nonblank_lines s = filter (\<lambda>l. l \<noteq> []) (split_lines s)"

fun join_lines :: "string list \<Rightarrow> string" where
  "join_lines [] = []"
| "join_lines [l] = l"
| "join_lines (l # ls) = l @ CHR 0x0A # join_lines ls"

text \<open>
  Reading a printed number back: the value of a digit, of a row of digits, of a
  decimal fraction with one digit after the point (the digits without the point are the
  number of tenths), and of a whole number with its sign.
\<close>

definition is_digit :: "char \<Rightarrow> bool" where
  "is_digit c = (c \<in> set ''0123456789'')"

definition digit_val :: "char \<Rightarrow> nat" where
  "digit_val c = of_char c - of_char (CHR ''0'')"

definition nat_of_digits :: "string \<Rightarrow> nat" where
  "nat_of_digits s = foldl (\<lambda>a c. 10 * a + digit_val c) 0 s"

definition tenths_value :: "string \<Rightarrow> rat" where
  "tenths_value s =
     (case s of
        [] \<Rightarrow> 0
      | c # r \<Rightarrow>
          if c = CHR ''-'' then - (of_nat (nat_of_digits (filter is_digit r)) / 10)
          else of_nat (nat_of_digits (filter is_digit s)) / 10)"

definition int_of_digits :: "string \<Rightarrow> int" where
  "int_of_digits s =
     (case s of
        [] \<Rightarrow> 0
      | c # r \<Rightarrow> if c = CHR ''-'' then - int (nat_of_digits r) else int (nat_of_digits s))"

text \<open>
  A printed value with exactly one digit after the decimal point: after a minus sign
  that may be there or not, at least one digit, a point, and one digit.
\<close>

fun unsigned :: "string \<Rightarrow> string" where
  "unsigned [] = []"
| "unsigned (c # cs) = (if c = CHR ''-'' then cs else c # cs)"

definition one_decimal :: "string \<Rightarrow> bool" where
  "one_decimal s =
     (case rev (unsigned s) of
        d # p # w \<Rightarrow> is_digit d \<and> p = CHR ''.'' \<and> w \<noteq> [] \<and> list_all is_digit w
      | _ \<Rightarrow> False)"

text \<open>
  From a trace: the bytes handed to \<open>send\<close> on a connection, in order, and the
  connections accepted and not closed since.
\<close>

fun sent_to :: "conn \<Rightarrow> event list \<Rightarrow> bytes" where
  "sent_to c [] = []"
| "sent_to c (Send c' d # evs) = (if c' = c then d @ sent_to c evs else sent_to c evs)"
| "sent_to c (_ # evs) = sent_to c evs"

fun open_after :: "conn list \<Rightarrow> event list \<Rightarrow> conn list" where
  "open_after cs [] = cs"
| "open_after cs (Accepted c a # evs) = open_after (cs @ [c]) evs"
| "open_after cs (Close c # evs) = open_after (removeAll c cs) evs"
| "open_after cs (_ # evs) = open_after cs evs"

definition open_conns :: "event list \<Rightarrow> conn list" where
  "open_conns evs = open_after [] evs"

text \<open>
  What the calls of an iteration hold ready, read off their results alone. The fault of
  the sensor is the exception of the first driver call that raises. The faults of the
  \<open>try\<close> are, in the order of the calls, the exceptions of \<open>accept\<close>, \<open>recv\<close>, the
  decoder, the sensor (unless its fault is an \<open>OSError\<close>), and the two \<open>send\<close> and
  \<open>close\<close>; the first of them is the first fault. A first fault is caught when there is
  none or it is an \<open>Exception\<close>. The link check of an iteration comes to an end without
  raising when the link is up, or \<open>wlan.connect\<close> returns and some later answer of
  \<open>wlan.isconnected()\<close> is \<open>True\<close>.
\<close>

fun raised :: "'a outcome \<Rightarrow> exn list" where
  "raised (Raises e) = [e]"
| "raised (Returns _) = []"

definition sensor_fault :: "'a sensor_env_scheme \<Rightarrow> exn option" where
  "sensor_fault env =
     (case raised (e_measure env) @ raised (e_temperature env) @ raised (e_humidity env) of
        [] \<Rightarrow> None
      | e # _ \<Rightarrow> Some e)"

definition try_faults :: "decoder \<Rightarrow> iter_env \<Rightarrow> exn list" where
  "try_faults decode env =
     raised (e_accept env) @ raised (e_recv env)
     @ (case e_recv env of Returns received \<Rightarrow> raised (decode received) | Raises _ \<Rightarrow> [])
     @ (case sensor_fault env of Some e \<Rightarrow> if is_OSError e then [] else [e] | None \<Rightarrow> [])
     @ raised (e_send_header env) @ raised (e_send_body env) @ raised (e_close env)"

definition first_fault :: "decoder \<Rightarrow> iter_env \<Rightarrow> exn option" where
  "first_fault decode env = (case try_faults decode env of [] \<Rightarrow> None | e # _ \<Rightarrow> Some e)"

definition caught :: "exn option \<Rightarrow> bool" where
  "caught f = (case f of None \<Rightarrow> True | Some e \<Rightarrow> is_Exception e)"

definition link_comes_up :: "iter_env \<Rightarrow> bool" where
  "link_comes_up env =
     (e_isconnected env \<or>
      (case e_connect env of Returns _ \<Rightarrow> True \<in> set (e_polls env) | Raises _ \<Rightarrow> False))"

text \<open>
  Valid UTF-8, as the Unicode standard defines the well-formed byte sequences: a byte
  below \<open>0x80\<close>; a lead byte \<open>0xC2\<close> to \<open>0xDF\<close> with one continuation byte, \<open>0xE0\<close> to
  \<open>0xEF\<close> with two, \<open>0xF0\<close> to \<open>0xF4\<close> with three, where a continuation byte lies in
  \<open>0x80\<close> to \<open>0xBF\<close> and the first one after \<open>0xE0\<close>, \<open>0xED\<close>, \<open>0xF0\<close> and \<open>0xF4\<close> in
  a narrower range, which shuts out the overlong forms, the surrogates and the values
  above \<open>0x10FFFF\<close>. \<open>need\<close> counts the continuation bytes still due, \<open>lo\<close> and \<open>hi\<close>
  bound the next one.
\<close>

fun utf8_strict :: "nat \<Rightarrow> nat \<Rightarrow> nat \<Rightarrow> bytes \<Rightarrow> bool" where
  "utf8_strict need lo hi [] = (need = 0)"
| "utf8_strict need lo hi (c # cs) =
     (if 0 < need then
        (if lo \<le> (of_char c :: nat) \<and> (of_char c :: nat) \<le> hi
         then utf8_strict (need - 1) 0x80 0xBF cs else False)
      else if (of_char c :: nat) < 0x80 then utf8_strict 0 0x80 0xBF cs
      else if (of_char c :: nat) < 0xC2 then False
      else if (of_char c :: nat) < 0xE0 then utf8_strict 1 0x80 0xBF cs
      else if (of_char c :: nat) = 0xE0 then utf8_strict 2 0xA0 0xBF cs
      else if (of_char c :: nat) = 0xED then utf8_strict 2 0x80 0x9F cs
      else if (of_char c :: nat) < 0xF0 then utf8_strict 2 0x80 0xBF cs
      else if (of_char c :: nat) = 0xF0 then utf8_strict 3 0x90 0xBF cs
      else if (of_char c :: nat) < 0xF4 then utf8_strict 3 0x80 0xBF cs
      else if (of_char c :: nat) = 0xF4 then utf8_strict 3 0x80 0x8F cs
      else False)"

definition valid_utf8 :: "bytes \<Rightarrow> bool" where
  "valid_utf8 bs = utf8_strict 0 0x80 0xBF bs"

text \<open>The trace at the end of a piece of the script, however it ended.\<close>

fun result_trace :: "result \<Rightarrow> event list" where
  "result_trace (Next st) = trace st"
| "result_trace (Halt e tr) = tr"
| "result_trace (Stuck tr) = tr"

subsection \<open>Example inputs\<close>

text \<open>
  A decoder for the examples. It accepts the byte strings that have the form of UTF-8
  (each lead byte followed by as many continuation bytes as it announces) and raises
  \<open>UnicodeError\<close> on the others; \<open>need\<close> counts the continuation bytes still due. It
  looks at the form only, as the decoder of MicroPython does, the interpreter the script
  is written for (\<open>machine\<close>, \<open>network\<close>, \<open>dht\<close>): the values that the bytes encode
  are not checked.
\<close>

fun utf8_check :: "nat \<Rightarrow> bytes \<Rightarrow> bool" where
  "utf8_check need [] = (need = 0)"
| "utf8_check need (c # cs) =
     (if 0 < need then
        (if 128 \<le> (of_char c :: nat) \<and> (of_char c :: nat) < 192
         then utf8_check (need - 1) cs else False)
      else if (of_char c :: nat) < 128 then utf8_check 0 cs
      else if (of_char c :: nat) < 192 then False
      else if (of_char c :: nat) < 224 then utf8_check 1 cs
      else if (of_char c :: nat) < 240 then utf8_check 2 cs
      else if (of_char c :: nat) < 248 then utf8_check 3 cs
      else False)"

definition utf8_decode :: decoder where
  "utf8_decode received = (if utf8_check 0 received then Returns received else Raises UnicodeError)"

text \<open>
  A start-up in which every call returns and the link is up at the second look, the
  state in which it enters the loop, and an iteration in which every call returns: the
  link is up, a client connects and sends a request line, the sensor measures 42 degrees
  and 55 percent at time 1700000000.
\<close>

definition example_state :: state where
  "example_state = \<lparr>ssid = ''home'', password = ''secret'', ip_address = ''192.168.1.7'',
     trace = [LedOff, WlanActive, WlanConnect ''home'' ''secret'', Sleep, LedOn, Bind, Listen]\<rparr>"

definition example_env :: iter_env where
  "example_env =
     \<lparr>e_measure = Returns (), e_temperature = Returns 42, e_humidity = Returns 55,
      e_isconnected = True, e_connect = Returns (), e_polls = [],
      e_ifconfig = ''192.168.1.7'',
      e_accept = Returns (1, ''192.168.1.9''),
      e_recv = Returns ''GET /metrics HTTP/1.1'',
      e_time = 1700000000,
      e_send_header = Returns 45, e_send_body = Returns 270, e_close = Returns ()\<rparr>"

definition example_boot :: boot_env where
  "example_boot =
     \<lparr>b_mac = Returns ''mac'', b_secrets = Returns (''home'', ''secret''),
      b_connect = Returns (), b_polls = [False, True], b_ifconfig = ''192.168.1.7'',
      b_bind = Returns (), b_listen = Returns ()\<rparr>"

section \<open>Properties\<close>

subsection \<open>Digits and printed numbers\<close>

lemma digit_char_in_digits:
  assumes "d < 10"
  shows "digit_char d \<in> set ''0123456789''"
proof -
  from assms have "d = 0 \<or> d = 1 \<or> d = 2 \<or> d = 3 \<or> d = 4 \<or> d = 5 \<or> d = 6 \<or> d = 7 \<or> d = 8 \<or> d = 9"
    by arith
  then show ?thesis by (elim disjE) (simp_all add: digit_char_def)
qed

lemma is_digit_digit_char: "d < 10 \<Longrightarrow> is_digit (digit_char d)"
  using digit_char_in_digits by (simp only: is_digit_def)

lemma digit_val_digit_char:
  assumes "d < 10"
  shows "digit_val (digit_char d) = d"
proof -
  from assms have "d = 0 \<or> d = 1 \<or> d = 2 \<or> d = 3 \<or> d = 4 \<or> d = 5 \<or> d = 6 \<or> d = 7 \<or> d = 8 \<or> d = 9"
    by arith
  then show ?thesis by (elim disjE) (simp_all add: digit_char_def digit_val_def)
qed

lemma not_is_digit:
  "\<not> is_digit (CHR ''.'')" "\<not> is_digit (CHR ''-'')" "\<not> is_digit (CHR 0x0A)" "\<not> is_digit (CHR '' '')"
  by (simp_all add: is_digit_def)

lemma str_nat_digits: "c \<in> set (str_nat n) \<Longrightarrow> is_digit c"
proof (induction n arbitrary: c rule: str_nat.induct)
  case (1 n)
  show ?case
  proof (cases "n < 10")
    case True
    with "1.prems" show ?thesis
      by (simp add: str_nat.simps [of n] is_digit_digit_char)
  next
    case False
    with "1.prems" "1.IH" show ?thesis
      by (auto simp: str_nat.simps [of n] is_digit_digit_char)
  qed
qed

lemma str_nat_not_Nil: "str_nat n \<noteq> []"
  by (simp add: str_nat.simps [of n])

lemma nat_of_digits_snoc: "nat_of_digits (s @ [c]) = 10 * nat_of_digits s + digit_val c"
  by (simp add: nat_of_digits_def)

text \<open>Reading the printed digits of a number back gives the number.\<close>

lemma nat_of_digits_str_nat: "nat_of_digits (str_nat n) = n"
proof (induction n rule: str_nat.induct)
  case (1 n)
  show ?case
  proof (cases "n < 10")
    case True
    then show ?thesis
      by (simp add: str_nat.simps [of n] nat_of_digits_def digit_val_digit_char)
  next
    case False
    then have "nat_of_digits (str_nat n) = 10 * (n div 10) + n mod 10"
      using "1.IH" by (simp add: str_nat.simps [of n] nat_of_digits_snoc digit_val_digit_char)
    then show ?thesis by simp
  qed
qed

lemma round_half_even_near:
  assumes "0 \<le> q"
  shows "\<bar>of_nat (round_half_even q) - q\<bar> \<le> 1 / 2"
proof -
  define r where "r = q - of_int \<lfloor>q\<rfloor>"
  have f: "(of_nat (nat \<lfloor>q\<rfloor>) :: rat) = of_int \<lfloor>q\<rfloor>"
    using assms by simp
  have r: "0 \<le> r" "r < 1"
    unfolding r_def by linarith+
  have "round_half_even q = nat \<lfloor>q\<rfloor> \<and> r \<le> 1 / 2
      \<or> round_half_even q = nat \<lfloor>q\<rfloor> + 1 \<and> 1 / 2 \<le> r"
    unfolding round_half_even_def Let_def f r_def [symmetric] by auto
  then show ?thesis
  proof
    assume a: "round_half_even q = nat \<lfloor>q\<rfloor> \<and> r \<le> 1 / 2"
    then have e: "of_nat (round_half_even q) = (of_int \<lfloor>q\<rfloor> :: rat)"
      using f by simp
    show ?thesis
      unfolding e using r conjunct2 [OF a] unfolding r_def by linarith
  next
    assume a: "round_half_even q = nat \<lfloor>q\<rfloor> + 1 \<and> 1 / 2 \<le> r"
    then have e: "of_nat (round_half_even q) = (of_int \<lfloor>q\<rfloor> + 1 :: rat)"
      using f by simp
    show ?thesis
      unfolding e using r conjunct2 [OF a] unfolding r_def by linarith
  qed
qed

text \<open>
  What \<open>.1f\<close> prints: a minus sign for a negative value, the digits of a whole number,
  a point and one digit, where the digits name the number of tenths nearest to the value.
\<close>

lemma format_1f_shape:
  "\<exists>n. format_1f q = (if q < 0 then ''-'' else []) @ str_nat (n div 10) @ [CHR ''.'', digit_char (n mod 10)]
     \<and> \<bar>of_nat n - \<bar>q\<bar> * 10\<bar> \<le> 1 / 2"
  using round_half_even_near [of "\<bar>q\<bar> * 10"]
  by (intro exI [of _ "round_half_even (\<bar>q\<bar> * 10)"]) (simp add: format_1f_def Let_def)

lemma tenths_value_format_1f: "\<bar>tenths_value (format_1f q) - q\<bar> \<le> 1 / 20"
proof -
  obtain n where n: "format_1f q =
      (if q < 0 then ''-'' else []) @ str_nat (n div 10) @ [CHR ''.'', digit_char (n mod 10)]"
    and near: "\<bar>of_nat n - \<bar>q\<bar> * 10\<bar> \<le> 1 / 2"
    using format_1f_shape by blast
  let ?ds = "str_nat (n div 10) @ [digit_char (n mod 10)]"
  have filt: "filter is_digit (str_nat (n div 10) @ [CHR ''.'', digit_char (n mod 10)]) = ?ds"
    using str_nat_digits by (simp add: not_is_digit is_digit_digit_char filter_id_conv)
  have val: "nat_of_digits ?ds = n"
    by (simp add: nat_of_digits_snoc nat_of_digits_str_nat digit_val_digit_char)
  obtain c cs where cs: "str_nat (n div 10) = c # cs"
    using str_nat_not_Nil by (cases "str_nat (n div 10)") auto
  then have "is_digit c"
    using str_nat_digits [of c "n div 10"] by simp
  then have c: "c \<noteq> CHR ''-''"
    using not_is_digit by auto
  have tv: "tenths_value (format_1f q) = (if q < 0 then - (of_nat n / 10) else of_nat n / 10)"
  proof (cases "q < 0")
    case True
    then show ?thesis
      using filt val by (simp add: n tenths_value_def)
  next
    case False
    have "tenths_value (c # cs @ [CHR ''.'', digit_char (n mod 10)]) = of_nat n / 10"
      using c filt val unfolding cs tenths_value_def by simp
    with False show ?thesis
      by (simp add: n cs)
  qed
  show ?thesis
  proof (cases "q < 0")
    case True
    with tv near show ?thesis
      by (simp add: abs_if split: if_splits)
  next
    case False
    with tv near show ?thesis
      by (simp add: abs_if split: if_splits)
  qed
qed

lemma no_break_str_nat: "CHR 0x0A \<notin> set (str_nat n)"
  using str_nat_digits not_is_digit by blast

lemma no_break_str_int: "CHR 0x0A \<notin> set (str_int i)"
  by (simp add: str_int_def no_break_str_nat)

lemma no_break_format_1f: "CHR 0x0A \<notin> set (format_1f q)"
proof -
  have "is_digit (digit_char (n mod 10))" for n
    by (simp add: is_digit_digit_char)
  then have "CHR 0x0A \<noteq> digit_char (n mod 10)" for n
    using not_is_digit by metis
  then show ?thesis
    by (simp add: format_1f_def Let_def no_break_str_nat)
qed

subsection \<open>Lines of the two texts\<close>

lemma split_lines_plain: "CHR 0x0A \<notin> set u \<Longrightarrow> split_lines u = [u]"
  by (induction u) auto

lemma split_lines_break:
  "CHR 0x0A \<notin> set u \<Longrightarrow> split_lines (u @ CHR 0x0A # v) = u # split_lines v"
  by (induction u) auto

lemma split_join_lines:
  "ls \<noteq> [] \<Longrightarrow> (\<And>l. l \<in> set ls \<Longrightarrow> CHR 0x0A \<notin> set l) \<Longrightarrow> split_lines (join_lines ls) = ls"
proof (induction ls rule: join_lines.induct)
  case 1
  then show ?case by simp
next
  case (2 l)
  then show ?case by (simp add: split_lines_plain)
next
  case (3 l l' ls)
  then show ?case by (simp add: split_lines_break)
qed

lemma nan_output_join:
  \<open>nan_output ts = join_lines
     [[], [],
      ''# HELP temperature Temperature from DHT11 sensor'',
      ''# TYPE temperature gauge'',
      [],
      ''temperature{sensor="dht11",location="GH_trial"} NaN '' @ ts,
      [], [],
      ''# HELP Humidity Temperature from DHT11 sensor'',
      ''# TYPE Humidity gauge'',
      ''humidity{sensor="dht11",location="GH_trial"} NaN '' @ ts,
      []]\<close>
  by (simp add: nan_output_def)

lemma value_output_join:
  \<open>value_output tv hv ts = join_lines
     [[],
      ''# HELP temperature Temperature from DHT11 sensor'',
      ''# TYPE temperature gauge'',
      ''temperature{sensor="dht11",location="GH_trial"} '' @ tv @ '' '' @ ts,
      [],
      ''# HELP Humidity Temperature from DHT11 sensor'',
      ''# TYPE Humidity gauge'',
      ''humidity{sensor="dht11",location="GH_trial"} '' @ hv @ '' '' @ ts,
      [], []]\<close>
  by (simp add: value_output_def)

lemma nan_output_lines:
  assumes "CHR 0x0A \<notin> set ts"
  shows \<open>split_lines (nan_output ts) =
     [[], [],
      ''# HELP temperature Temperature from DHT11 sensor'',
      ''# TYPE temperature gauge'',
      [],
      ''temperature{sensor="dht11",location="GH_trial"} NaN '' @ ts,
      [], [],
      ''# HELP Humidity Temperature from DHT11 sensor'',
      ''# TYPE Humidity gauge'',
      ''humidity{sensor="dht11",location="GH_trial"} NaN '' @ ts,
      []]\<close>
  unfolding nan_output_join
  by (rule split_join_lines) (use assms in auto)

lemma value_output_lines:
  assumes "CHR 0x0A \<notin> set tv" and "CHR 0x0A \<notin> set hv" and "CHR 0x0A \<notin> set ts"
  shows \<open>split_lines (value_output tv hv ts) =
     [[],
      ''# HELP temperature Temperature from DHT11 sensor'',
      ''# TYPE temperature gauge'',
      ''temperature{sensor="dht11",location="GH_trial"} '' @ tv @ '' '' @ ts,
      [],
      ''# HELP Humidity Temperature from DHT11 sensor'',
      ''# TYPE Humidity gauge'',
      ''humidity{sensor="dht11",location="GH_trial"} '' @ hv @ '' '' @ ts,
      [], []]\<close>
  unfolding value_output_join
  by (rule split_join_lines) (use assms in auto)

lemma int_of_digits_str_int: "int_of_digits (str_int i) = i"
proof (cases "i < 0")
  case True
  then show ?thesis
    by (simp add: str_int_def int_of_digits_def nat_of_digits_str_nat)
next
  case False
  obtain c cs where cs: "str_nat (nat i) = c # cs"
    using str_nat_not_Nil by (cases "str_nat (nat i)") auto
  then have "is_digit c"
    using str_nat_digits [of c "nat i"] by simp
  then have c: "c \<noteq> CHR ''-''"
    using not_is_digit by auto
  have "nat_of_digits (c # cs) = nat i"
    using nat_of_digits_str_nat [of "nat i"] by (simp add: cs)
  with False c show ?thesis
    by (simp add: str_int_def int_of_digits_def cs)
qed

lemma str_nat_all_digits: "list_all is_digit (str_nat n)"
  using str_nat_digits by (simp add: list_all_iff)

lemma one_decimal_format_1f: "one_decimal (format_1f q)"
proof -
  let ?n = "round_half_even (\<bar>q\<bar> * 10)"
  let ?u = "str_nat (?n div 10) @ [CHR ''.'', digit_char (?n mod 10)]"
  obtain c cs where cs: "str_nat (?n div 10) = c # cs"
    using str_nat_not_Nil by (cases "str_nat (?n div 10)") auto
  then have "is_digit c"
    using str_nat_digits [of c "?n div 10"] by simp
  then have c: "c \<noteq> CHR ''-''"
    using not_is_digit by auto
  have "unsigned (format_1f q) = ?u"
    using c by (simp add: format_1f_def Let_def cs)
  then show ?thesis
    using str_nat_not_Nil [of "?n div 10"] str_nat_all_digits [of "?n div 10"]
    by (simp add: one_decimal_def is_digit_digit_char)
qed

lemma nan_differs_from_value: "nan_output ts \<noteq> value_output tv hv ts'"
  by (simp add: nan_output_def value_output_def)

subsection \<open>The sensor read and the text cannot raise but as follows\<close>

lemma read_dht_data_pair:
  "read_dht_data env = Returns (temp, hum) \<Longrightarrow>
     (temp = None \<and> hum = None) \<or> (\<exists>x y. temp = Some x \<and> hum = Some y)"
  by (auto simp: read_dht_data_def measure_and_read_def Let_def split: outcome.splits if_splits)

lemma read_dht_data_raises:
  "read_dht_data env = Raises e \<Longrightarrow>
     \<not> is_OSError e \<and>
     e \<in> set (raised (e_measure env) @ raised (e_temperature env) @ raised (e_humidity env))"
  by (auto simp: read_dht_data_def measure_and_read_def Let_def split: outcome.splits if_splits)

subsection \<open>The loop goes on\<close>

lemma wait_connected_comes_up:
  "True \<in> set polls \<Longrightarrow> \<exists>st'. wait_connected polls st = Next st'"
  by (induction polls arbitrary: st) auto

lemma check_link_comes_up: "link_comes_up env \<Longrightarrow> \<exists>st'. check_link env st = Next st'"
proof (cases "e_isconnected env")
  case True
  then show ?thesis by (simp add: check_link_def)
next
  case False
  assume "link_comes_up env"
  with False obtain u where u: "e_connect env = Returns u" and p: "True \<in> set (e_polls env)"
    by (auto simp: link_comes_up_def split: outcome.splits)
  from wait_connected_comes_up [OF p] obtain st' where
    "wait_connected (e_polls env)
       (emit (WlanConnect (ssid (emit LedOff st)) (password (emit LedOff st))) (emit LedOff st))
     = Next st'"
    by blast
  with False u show ?thesis by (simp add: check_link_def Let_def)
qed

text \<open>
  The body of the \<open>try\<close> ends with the first fault of the iteration, and the handlers
  let the loop go on exactly when that is an \<open>Exception\<close>.
\<close>

lemma is_OSError_Exception: "is_OSError e \<Longrightarrow> is_Exception e"
  by (cases e) simp_all

lemma sensor_fault_OSError:
  "sensor_fault env = Some e \<Longrightarrow> is_OSError e \<Longrightarrow> read_dht_data env = Returns (None, None)"
  by (auto simp: sensor_fault_def read_dht_data_def measure_and_read_def split: outcome.splits)

lemma sensor_fault_other:
  "sensor_fault env = Some e \<Longrightarrow> \<not> is_OSError e \<Longrightarrow> read_dht_data env = Raises e"
  by (auto simp: sensor_fault_def read_dht_data_def measure_and_read_def split: outcome.splits)

lemma sensor_fault_None:
  "sensor_fault env = None \<Longrightarrow> \<exists>r h. read_dht_data env = Returns (Some r, Some h)"
  by (auto simp: sensor_fault_def read_dht_data_def measure_and_read_def split: outcome.splits)

lemma serve_client_first_fault: "snd (serve_client decode env st) = first_fault decode env"
proof (cases "e_accept env")
  case (Raises x)
  then show ?thesis by (simp add: serve_client_def first_fault_def try_faults_def)
next
  case acc: (Returns p)
  obtain c a where p: "p = (c, a)" by (cases p)
  show ?thesis
  proof (cases "e_recv env")
    case (Raises x)
    with acc p show ?thesis by (simp add: serve_client_def first_fault_def try_faults_def)
  next
    case rcv: (Returns received)
    show ?thesis
    proof (cases "decode received")
      case (Raises x)
      with acc p rcv show ?thesis by (simp add: serve_client_def first_fault_def try_faults_def)
    next
      case dec: (Returns request)
      have sends: "snd (case prometheus_output temp hum (e_time env) of
              Raises e \<Rightarrow> (emit (Accepted c a) st, Some e)
            | Returns body \<Rightarrow>
                (let st2 = emit (Send c http_header) (emit (Accepted c a) st) in
                 case e_send_header env of
                   Raises e \<Rightarrow> (st2, Some e)
                 | Returns _ \<Rightarrow>
                (let st3 = emit (Send c (encode body)) st2 in
                 case e_send_body env of
                   Raises e \<Rightarrow> (st3, Some e)
                 | Returns _ \<Rightarrow>
                (let st4 = emit (Close c) st3 in
                 case e_close env of
                   Raises e \<Rightarrow> (st4, Some e)
                 | Returns _ \<Rightarrow> (st4, None)))))
          = (case raised (e_send_header env) @ raised (e_send_body env) @ raised (e_close env) of
               [] \<Rightarrow> None | e # _ \<Rightarrow> Some e)"
        if "(temp = None \<and> hum = None) \<or> (\<exists>x y. temp = Some x \<and> hum = Some y)" for temp hum
        using that
        by (auto simp: prometheus_output_def format_field_def Let_def split: outcome.splits)
      show ?thesis
      proof (cases "sensor_fault env")
        case None
        then obtain r h where "read_dht_data env = Returns (Some r, Some h)"
          using sensor_fault_None by blast
        with acc p rcv dec None sends [of "Some r" "Some h"] show ?thesis
          by (simp add: serve_client_def first_fault_def try_faults_def Let_def)
      next
        case (Some e)
        show ?thesis
        proof (cases "is_OSError e")
          case True
          with Some have "read_dht_data env = Returns (None, None)"
            by (rule sensor_fault_OSError)
          with acc p rcv dec Some True sends [of None None] show ?thesis
            by (simp add: serve_client_def first_fault_def try_faults_def Let_def)
        next
          case False
          with Some have "read_dht_data env = Raises e"
            by (rule sensor_fault_other)
          with acc p rcv dec Some False show ?thesis
            by (simp add: serve_client_def first_fault_def try_faults_def)
        qed
      qed
    qed
  qed
qed

lemma try_serve_first_fault:
  "try_serve decode env st =
     (case first_fault decode env of
        None \<Rightarrow> Next (fst (serve_client decode env st))
      | Some e \<Rightarrow>
          if is_Exception e then Next (fst (serve_client decode env st))
          else Halt e (trace (fst (serve_client decode env st))))"
  using serve_client_first_fault [of decode env st] is_OSError_Exception
  by (cases "serve_client decode env st") (auto simp: try_serve_def split: option.splits)

lemma iteration_caught:
  assumes "link_comes_up env" and "caught (first_fault decode env)"
  shows "\<exists>st'. iteration decode env st = Next st'"
proof -
  from check_link_comes_up [OF assms(1)] obtain st1 where "check_link env st = Next st1"
    by blast
  with assms(2) show ?thesis
    by (auto simp: iteration_def try_serve_first_fault caught_def split: option.splits)
qed

lemma main_loop_caught:
  "list_all (\<lambda>env. link_comes_up env \<and> caught (first_fault decode env)) envs
     \<Longrightarrow> \<exists>st'. main_loop decode envs st = Next st'"
proof (induction envs arbitrary: st)
  case Nil
  then show ?case by simp
next
  case (Cons env envs)
  then obtain st1 where "iteration decode env st = Next st1"
    using iteration_caught [of env decode st] by auto
  moreover from Cons obtain st2 where "main_loop decode envs st1 = Next st2"
    by auto
  ultimately show ?case by simp
qed

lemma iteration_not_caught:
  assumes "link_comes_up env" and "first_fault decode env = Some e" and "\<not> is_Exception e"
  shows "\<exists>tr. iteration decode env st = Halt e tr"
proof -
  from check_link_comes_up [OF assms(1)] obtain st1 where "check_link env st = Next st1"
    by blast
  with assms(2,3) show ?thesis
    by (simp add: iteration_def try_serve_first_fault)
qed

lemma sensor_other_iteration:
  assumes "check_link env st = Next st1"
    and "e_accept env = Returns (c, a)" and "e_recv env = Returns received"
    and "decode received = Returns request" and "read_dht_data env = Raises e"
  shows "iteration decode env st =
     (if is_Exception e then Next (emit (Accepted c a) st1)
      else Halt e (trace (emit (Accepted c a) st1)))"
  using assms is_OSError_Exception [of e]
  by (auto simp: iteration_def try_serve_def serve_client_def)

lemma sensor_fault_nan:
  assumes "e_accept env = Returns (c, a)" and "e_recv env = Returns received"
    and "decode received = Returns request" and "read_dht_data env = Returns (None, None)"
    and "e_send_header env = Returns n"
  shows "Send c (encode (nan_output (str_int (e_time env))))
           \<in> set (trace (fst (serve_client decode env st)))"
  using assms
  by (auto simp: serve_client_def prometheus_output_def emit_def Let_def split: outcome.splits)

subsection \<open>What the received bytes can change\<close>

lemma result_trace_try_serve:
  "result_trace (try_serve decode env st) = trace (fst (serve_client decode env st))"
  by (cases "serve_client decode env st") (simp add: try_serve_def split: option.splits)

lemma ignores_recv_check_link: "check_link (env\<lparr>e_recv := x\<rparr>) st = check_link env st"
  by (simp add: check_link_def Let_def cong: outcome.case_cong result.case_cong)

lemma ignores_recv_read: "read_dht_data (env\<lparr>e_recv := x\<rparr>) = read_dht_data env"
  by (simp add: read_dht_data_def measure_and_read_def Let_def cong: outcome.case_cong)

lemma serve_client_decoded:
  assumes "decode r1 = Returns q1" and "decode r2 = Returns q2"
  shows "serve_client decode (env\<lparr>e_recv := Returns r1\<rparr>) st
       = serve_client decode (env\<lparr>e_recv := Returns r2\<rparr>) st"
  using assms
  by (simp add: serve_client_def ignores_recv_read Let_def cong: outcome.case_cong prod.case_cong)

subsection \<open>Valid UTF-8 and the example decoder\<close>

text \<open>The example decoder accepts every valid UTF-8 byte string.\<close>

lemma utf8_strict_check:
  "utf8_strict need lo hi bs \<Longrightarrow> 0x80 \<le> lo \<Longrightarrow> hi \<le> 0xBF \<Longrightarrow> utf8_check need bs"
proof (induction bs arbitrary: need lo hi)
  case Nil
  then show ?case by simp
next
  case (Cons c cs)
  show ?case
  proof (cases "0 < need")
    case True
    with Cons.prems have "lo \<le> (of_char c :: nat)" "(of_char c :: nat) \<le> hi"
      and "utf8_strict (need - 1) 0x80 0xBF cs"
      by (simp_all split: if_splits)
    with Cons.prems True Cons.IH [of "need - 1" "0x80" "0xBF"] show ?thesis
      by simp
  next
    case False
    then have n: "need = 0" by simp
    from Cons.prems(1) show ?thesis
      unfolding n
      using Cons.IH [of 0 "0x80" "0xBF"] Cons.IH [of 1 "0x80" "0xBF"]
        Cons.IH [of 2 "0xA0" "0xBF"] Cons.IH [of 2 "0x80" "0x9F"] Cons.IH [of 2 "0x80" "0xBF"]
        Cons.IH [of 3 "0x90" "0xBF"] Cons.IH [of 3 "0x80" "0xBF"] Cons.IH [of 3 "0x80" "0x8F"]
      by (simp split: if_splits)
  qed
qed

lemma valid_utf8_accepted: "valid_utf8 bs \<Longrightarrow> utf8_decode bs = Returns bs"
  using utf8_strict_check [of 0 "0x80" "0xBF" bs] by (simp add: valid_utf8_def utf8_decode_def)

subsection \<open>The example run\<close>

lemma startup_example: "startup example_boot = Next example_state"
  by (simp add: startup_def connect_and_listen_def example_boot_def example_state_def emit_def)

lemma example_iteration:
  \<open>iteration utf8_decode example_env example_state =
     Next (example_state\<lparr>trace := trace example_state @
       [Accepted 1 ''192.168.1.9'',
        Send 1 http_header,
        Send 1 ''\<newline># HELP temperature Temperature from DHT11 sensor\<newline># TYPE temperature gauge\<newline>temperature{sensor="dht11",location="GH_trial"} 22.0 1700000000\<newline>\<newline># HELP Humidity Temperature from DHT11 sensor\<newline># TYPE Humidity gauge\<newline>humidity{sensor="dht11",location="GH_trial"} 55.0 1700000000\<newline>\<newline>'',
        Close 1]\<rparr>)\<close>
  by (simp add: iteration_def check_link_def try_serve_def serve_client_def example_env_def
      example_state_def utf8_decode_def read_dht_data_def measure_and_read_def
      prometheus_output_def format_field_def format_1f_def round_half_even_def
      str_int_def str_nat.simps digit_char_def value_output_def encode_def emit_def)

lemma sent_to_append: "sent_to c (evs @ evs') = sent_to c evs @ sent_to c evs'"
  by (induction c evs rule: sent_to.induct) auto

lemma open_after_append: "open_after cs (evs @ evs') = open_after (open_after cs evs) evs'"
  by (induction cs evs rule: open_after.induct) auto

section \<open>The claims\<close>

text \<open>
  Claim C1, as amended. All is said in terms of what the calls of an iteration return
  or raise. (1) Over any number of iterations in each of which the link check comes
  through and the first fault of the \<open>try\<close>, if there is one, is an \<open>Exception\<close>, the
  loop stands at the head of its next iteration. (2) When a driver call of the sensor
  raises an \<open>OSError\<close>, \<open>read_dht_data\<close> gives \<open>(None, None)\<close>, and for a client whose
  request was received and decoded and to whom the header could be sent, the text with
  \<open>NaN\<close> is handed to \<open>send\<close>. (3) When a driver call raises another exception,
  \<open>read_dht_data\<close> raises it; after the accepting nothing is done in the iteration, and
  the loop goes on if it is an \<open>Exception\<close> and the process ends with it if not.
  (4) When the link is down and \<open>wlan.connect\<close> raises, whatever it raises, the process
  ends with that exception, the LED off. (5) When the first fault of the \<open>try\<close> is no
  \<open>Exception\<close> (\<open>KeyboardInterrupt\<close>, \<open>SystemExit\<close>), the process ends with it.
\<close>

theorem faults_while_serving_are_caught:
  "(list_all (\<lambda>env. link_comes_up env \<and> caught (first_fault decode env)) envs
      \<longrightarrow> (\<exists>st'. main_loop decode envs st = Next st'))
   \<and> (link_comes_up env \<and> e_accept env = Returns (c, a) \<and> e_recv env = Returns received
        \<and> decode received = Returns request \<and> sensor_fault env = Some e \<and> is_OSError e
        \<and> e_send_header env = Returns n
      \<longrightarrow> read_dht_data env = Returns (None, None)
          \<and> Send c (encode (nan_output (str_int (e_time env))))
              \<in> set (result_trace (iteration decode env st)))
   \<and> (link_comes_up env \<and> e_accept env = Returns (c, a) \<and> e_recv env = Returns received
        \<and> decode received = Returns request \<and> sensor_fault env = Some e \<and> \<not> is_OSError e
      \<longrightarrow> read_dht_data env = Raises e
          \<and> (\<exists>st1. check_link env st = Next st1
                \<and> iteration decode env st =
                    (if is_Exception e then Next (emit (Accepted c a) st1)
                     else Halt e (trace st1 @ [Accepted c a]))))
   \<and> (\<not> e_isconnected env \<and> e_connect env = Raises e
      \<longrightarrow> main_loop decode (env # envs) st
            = Halt e (trace st @ [LedOff, WlanConnect (ssid st) (password st)]))
   \<and> (link_comes_up env \<and> first_fault decode env = Some e \<and> \<not> is_Exception e
      \<longrightarrow> (\<exists>tr. main_loop decode (env # envs) st = Halt e tr))"
proof (intro conjI impI)
  assume "list_all (\<lambda>env. link_comes_up env \<and> caught (first_fault decode env)) envs"
  then show "\<exists>st'. main_loop decode envs st = Next st'"
    by (rule main_loop_caught)
next
  assume h: "link_comes_up env \<and> e_accept env = Returns (c, a) \<and> e_recv env = Returns received
        \<and> decode received = Returns request \<and> sensor_fault env = Some e \<and> is_OSError e
        \<and> e_send_header env = Returns n"
  then show r: "read_dht_data env = Returns (None, None)"
    using sensor_fault_OSError [of env e] by simp
  from h obtain st1 where st1: "check_link env st = Next st1"
    using check_link_comes_up [of env st] by blast
  from h r have "Send c (encode (nan_output (str_int (e_time env))))
      \<in> set (trace (fst (serve_client decode env st1)))"
    using sensor_fault_nan [of env c a received decode request n st1] by simp
  with st1 show "Send c (encode (nan_output (str_int (e_time env))))
            \<in> set (result_trace (iteration decode env st))"
    by (simp add: iteration_def result_trace_try_serve)
next
  assume h: "link_comes_up env \<and> e_accept env = Returns (c, a) \<and> e_recv env = Returns received
        \<and> decode received = Returns request \<and> sensor_fault env = Some e \<and> \<not> is_OSError e"
  then show r: "read_dht_data env = Raises e"
    using sensor_fault_other [of env e] by simp
  from h obtain st1 where st1: "check_link env st = Next st1"
    using check_link_comes_up [of env st] by blast
  from h r st1 have "iteration decode env st =
     (if is_Exception e then Next (emit (Accepted c a) st1)
      else Halt e (trace (emit (Accepted c a) st1)))"
    using sensor_other_iteration [of env st st1 c a received decode request e] by simp
  with st1 show "\<exists>st1. check_link env st = Next st1
                \<and> iteration decode env st =
                    (if is_Exception e then Next (emit (Accepted c a) st1)
                     else Halt e (trace st1 @ [Accepted c a]))"
    by (simp add: emit_def)
next
  assume "\<not> e_isconnected env \<and> e_connect env = Raises e"
  then show "main_loop decode (env # envs) st
            = Halt e (trace st @ [LedOff, WlanConnect (ssid st) (password st)])"
    by (simp add: iteration_def check_link_def emit_def Let_def)
next
  assume "link_comes_up env \<and> first_fault decode env = Some e \<and> \<not> is_Exception e"
  then obtain tr where "iteration decode env st = Halt e tr"
    using iteration_not_caught [of env decode e st] by blast
  then show "\<exists>tr. main_loop decode (env # envs) st = Halt e tr"
    by simp
qed

theorem faults_while_serving_are_caught_witness:
  "list_all (\<lambda>env. link_comes_up env \<and> caught (first_fault utf8_decode env))
       [example_env\<lparr>e_measure := Raises OSError\<rparr>, example_env\<lparr>e_recv := Raises OSError\<rparr>, example_env]
   \<and> (\<exists>st'. main_loop utf8_decode
         [example_env\<lparr>e_measure := Raises OSError\<rparr>, example_env\<lparr>e_recv := Raises OSError\<rparr>, example_env]
         example_state = Next st')
   \<and> sensor_fault (example_env\<lparr>e_humidity := Raises OSError\<rparr>) = Some OSError
   \<and> read_dht_data (example_env\<lparr>e_humidity := Raises OSError\<rparr>) = Returns (None, None)
   \<and> Send 1 (encode (nan_output (str_int 1700000000)))
       \<in> set (result_trace (iteration utf8_decode (example_env\<lparr>e_humidity := Raises OSError\<rparr>) example_state))
   \<and> sensor_fault (example_env\<lparr>e_measure := Raises ValueError\<rparr>) = Some ValueError
   \<and> read_dht_data (example_env\<lparr>e_measure := Raises ValueError\<rparr>) = Raises ValueError
   \<and> iteration utf8_decode (example_env\<lparr>e_measure := Raises ValueError\<rparr>) example_state
       = Next (emit (Accepted 1 ''192.168.1.9'') example_state)
   \<and> main_loop utf8_decode
         [example_env\<lparr>e_isconnected := False, e_connect := Raises MemoryError\<rparr>, example_env] example_state
       = Halt MemoryError (trace example_state @ [LedOff, WlanConnect ''home'' ''secret''])
   \<and> first_fault utf8_decode (example_env\<lparr>e_accept := Raises KeyboardInterrupt\<rparr>)
       = Some KeyboardInterrupt
   \<and> (\<exists>tr. main_loop utf8_decode [example_env\<lparr>e_accept := Raises KeyboardInterrupt\<rparr>, example_env]
         example_state = Halt KeyboardInterrupt tr)"
proof -
  have h1: "list_all (\<lambda>env. link_comes_up env \<and> caught (first_fault utf8_decode env))
       [example_env\<lparr>e_measure := Raises OSError\<rparr>, example_env\<lparr>e_recv := Raises OSError\<rparr>, example_env]"
    by (simp add: link_comes_up_def caught_def first_fault_def try_faults_def sensor_fault_def
        example_env_def utf8_decode_def)
  have h2: "link_comes_up (example_env\<lparr>e_humidity := Raises OSError\<rparr>)"
    "e_accept (example_env\<lparr>e_humidity := Raises OSError\<rparr>) = Returns (1, ''192.168.1.9'')"
    "e_recv (example_env\<lparr>e_humidity := Raises OSError\<rparr>) = Returns ''GET /metrics HTTP/1.1''"
    "utf8_decode ''GET /metrics HTTP/1.1'' = Returns ''GET /metrics HTTP/1.1''"
    "sensor_fault (example_env\<lparr>e_humidity := Raises OSError\<rparr>) = Some OSError"
    "e_send_header (example_env\<lparr>e_humidity := Raises OSError\<rparr>) = Returns 45"
    "e_time (example_env\<lparr>e_humidity := Raises OSError\<rparr>) = 1700000000"
    by (simp_all add: link_comes_up_def sensor_fault_def example_env_def utf8_decode_def)
  have h3: "link_comes_up (example_env\<lparr>e_measure := Raises ValueError\<rparr>)"
    "e_accept (example_env\<lparr>e_measure := Raises ValueError\<rparr>) = Returns (1, ''192.168.1.9'')"
    "e_recv (example_env\<lparr>e_measure := Raises ValueError\<rparr>) = Returns ''GET /metrics HTTP/1.1''"
    "sensor_fault (example_env\<lparr>e_measure := Raises ValueError\<rparr>) = Some ValueError"
    "check_link (example_env\<lparr>e_measure := Raises ValueError\<rparr>) example_state = Next example_state"
    by (simp_all add: link_comes_up_def sensor_fault_def check_link_def example_env_def)
  have h4: "\<not> e_isconnected (example_env\<lparr>e_isconnected := False, e_connect := Raises MemoryError\<rparr>)"
    "e_connect (example_env\<lparr>e_isconnected := False, e_connect := Raises MemoryError\<rparr>) = Raises MemoryError"
    "ssid example_state = ''home''" "password example_state = ''secret''"
    by (simp_all add: example_state_def)
  have h5: "link_comes_up (example_env\<lparr>e_accept := Raises KeyboardInterrupt\<rparr>)"
    "first_fault utf8_decode (example_env\<lparr>e_accept := Raises KeyboardInterrupt\<rparr>) = Some KeyboardInterrupt"
    by (simp_all add: link_comes_up_def first_fault_def try_faults_def example_env_def)
  note t = faults_while_serving_are_caught [where decode = utf8_decode and st = example_state]
  from t [where envs = "[example_env\<lparr>e_measure := Raises OSError\<rparr>, example_env\<lparr>e_recv := Raises OSError\<rparr>, example_env]"]
    h1
  have c1: "\<exists>st'. main_loop utf8_decode
         [example_env\<lparr>e_measure := Raises OSError\<rparr>, example_env\<lparr>e_recv := Raises OSError\<rparr>, example_env]
         example_state = Next st'"
    by blast
  from t [where env = "example_env\<lparr>e_humidity := Raises OSError\<rparr>" and c = 1
      and a = "''192.168.1.9''" and received = "''GET /metrics HTTP/1.1''"
      and request = "''GET /metrics HTTP/1.1''" and e = OSError and n = 45] h2
  have c2: "read_dht_data (example_env\<lparr>e_humidity := Raises OSError\<rparr>) = Returns (None, None)"
    "Send 1 (encode (nan_output (str_int 1700000000)))
       \<in> set (result_trace (iteration utf8_decode (example_env\<lparr>e_humidity := Raises OSError\<rparr>) example_state))"
    by simp_all
  from t [where env = "example_env\<lparr>e_measure := Raises ValueError\<rparr>" and c = 1
      and a = "''192.168.1.9''" and received = "''GET /metrics HTTP/1.1''"
      and request = "''GET /metrics HTTP/1.1''" and e = ValueError] h2(4) h3
  have c3: "read_dht_data (example_env\<lparr>e_measure := Raises ValueError\<rparr>) = Raises ValueError"
    "iteration utf8_decode (example_env\<lparr>e_measure := Raises ValueError\<rparr>) example_state
       = Next (emit (Accepted 1 ''192.168.1.9'') example_state)"
    by (simp_all add: emit_def)
  from t [where env = "example_env\<lparr>e_isconnected := False, e_connect := Raises MemoryError\<rparr>"
      and e = MemoryError and envs = "[example_env]"] h4
  have c4: "main_loop utf8_decode
         [example_env\<lparr>e_isconnected := False, e_connect := Raises MemoryError\<rparr>, example_env] example_state
       = Halt MemoryError (trace example_state @ [LedOff, WlanConnect ''home'' ''secret''])"
    by simp
  from t [where env = "example_env\<lparr>e_accept := Raises KeyboardInterrupt\<rparr>"
      and e = KeyboardInterrupt and envs = "[example_env]"] h5
  have c5: "\<exists>tr. main_loop utf8_decode [example_env\<lparr>e_accept := Raises KeyboardInterrupt\<rparr>, example_env]
         example_state = Halt KeyboardInterrupt tr"
    by simp
  from h1 c1 h2(5) c2 h3(4) c3 c4 h5(2) c5 show ?thesis
    by blast
qed

text \<open>
  The claim as it stands fails, because the link check stands before the \<open>try\<close>: after
  a start-up and a first iteration in which every call returns, the link is down at the
  head of the second iteration and \<open>wlan.connect\<close> raises \<open>OSError\<close>; no handler is
  around it, and the process ends with that exception, the LED off.
\<close>

theorem failed_reconnect_ends_process:
  "program utf8_decode example_boot
       [example_env, example_env\<lparr>e_isconnected := False, e_connect := Raises OSError\<rparr>]
     = Halt OSError
        [LedOff, WlanActive, WlanConnect ''home'' ''secret'', Sleep, LedOn, Bind, Listen,
         Accepted 1 ''192.168.1.9'', Send 1 http_header,
         Send 1 (encode (value_output ''22.0'' ''55.0'' ''1700000000'')), Close 1,
         LedOff, WlanConnect ''home'' ''secret'']"
  by (simp add: program_def startup_example example_iteration)
    (simp add: iteration_def check_link_def example_env_def example_state_def emit_def
      encode_def value_output_def)

text \<open>
  Claim C2. The claim fails on the code: \<open>conn.close()\<close> is the last statement of the
  \<open>try\<close>, and neither handler closes the connection. When the first \<open>send\<close> raises
  \<open>OSError\<close>, the iteration ends after the accepting and that one \<open>send\<close>; \<open>close\<close> is
  not called and the connection stays open when the loop goes on. In the iteration
  where every call returns, no connection is left open.
\<close>

theorem failed_send_leaves_connection_open:
  "iteration utf8_decode (example_env\<lparr>e_send_header := Raises OSError\<rparr>) example_state
     = Next (example_state\<lparr>trace := trace example_state
               @ [Accepted 1 ''192.168.1.9'', Send 1 http_header]\<rparr>)
   \<and> open_conns (result_trace
        (iteration utf8_decode (example_env\<lparr>e_send_header := Raises OSError\<rparr>) example_state)) = [1]
   \<and> open_conns (result_trace (iteration utf8_decode example_env example_state)) = []"
proof -
  have "iteration utf8_decode (example_env\<lparr>e_send_header := Raises OSError\<rparr>) example_state
     = Next (example_state\<lparr>trace := trace example_state
               @ [Accepted 1 ''192.168.1.9'', Send 1 http_header]\<rparr>)"
    by (simp add: iteration_def check_link_def try_serve_def serve_client_def example_env_def
        example_state_def utf8_decode_def read_dht_data_def measure_and_read_def
        prometheus_output_def format_field_def emit_def)
  moreover have "open_conns (result_trace (iteration utf8_decode example_env example_state)) = []"
    unfolding example_iteration by (simp add: open_conns_def example_state_def)
  ultimately show ?thesis
    by (simp add: open_conns_def example_state_def)
qed

text \<open>
  Claim C3. Whenever the measurement succeeds, with raw temperature \<open>r\<close> and humidity
  \<open>h\<close>, \<open>read_dht_data\<close> gives \<open>r - 20\<close> as the temperature, which is not the raw value,
  and gives the humidity as the sensor returned it.
\<close>

theorem read_dht_data_calibrated:
  assumes "e_measure env = Returns u" and "e_temperature env = Returns r"
    and "e_humidity env = Returns h"
  shows "read_dht_data env = Returns (Some (r - 20), Some h) \<and> r - 20 \<noteq> r"
  using assms by (simp add: read_dht_data_def measure_and_read_def)

theorem read_dht_data_calibrated_witness:
  "e_measure example_env = Returns () \<and> e_temperature example_env = Returns 42
     \<and> e_humidity example_env = Returns 55
     \<and> read_dht_data example_env = Returns (Some 22, Some 55)"
  using read_dht_data_calibrated [of example_env "()" 42 55]
  by (simp add: example_env_def)

text \<open>
  Claim C4. For every whole number \<open>t\<close>, the text produced when both values are absent
  has these twelve lines: among them the sample line of \<open>temperature\<close> and the sample
  line of \<open>humidity\<close>, each with the value \<open>NaN\<close> followed by the printed \<open>t\<close>; and the
  printed \<open>t\<close> reads back as \<open>t\<close>.
\<close>

theorem absent_reading_renders_nan:
  \<open>prometheus_output None None t = Returns (nan_output (str_int t))
     \<and> split_lines (nan_output (str_int t)) =
       [[], [],
        ''# HELP temperature Temperature from DHT11 sensor'',
        ''# TYPE temperature gauge'',
        [],
        ''temperature{sensor="dht11",location="GH_trial"} NaN '' @ str_int t,
        [], [],
        ''# HELP Humidity Temperature from DHT11 sensor'',
        ''# TYPE Humidity gauge'',
        ''humidity{sensor="dht11",location="GH_trial"} NaN '' @ str_int t,
        []]
     \<and> int_of_digits (str_int t) = t\<close>
  using nan_output_lines [OF no_break_str_int [of t]]
  by (simp add: prometheus_output_def int_of_digits_str_int)

theorem absent_reading_renders_nan_witness:
  \<open>prometheus_output None None 1700000000 = Returns ''\<newline>\<newline># HELP temperature Temperature from DHT11 sensor\<newline># TYPE temperature gauge\<newline>\<newline>temperature{sensor="dht11",location="GH_trial"} NaN 1700000000\<newline>\<newline>\<newline># HELP Humidity Temperature from DHT11 sensor\<newline># TYPE Humidity gauge\<newline>humidity{sensor="dht11",location="GH_trial"} NaN 1700000000\<newline>''
     \<and> int_of_digits ''1700000000'' = 1700000000\<close>
  using absent_reading_renders_nan [of 1700000000]
  by (simp add: nan_output_def str_int_def str_nat.simps digit_char_def)

text \<open>
  Claim C5. For every temperature \<open>x\<close>, humidity \<open>y\<close> and whole number \<open>t\<close>, the text
  produced when both values are present has these ten lines: among them the sample line
  of \<open>temperature\<close> with the printed \<open>x\<close> and the printed \<open>t\<close>, and the sample line of
  \<open>humidity\<close> with the printed \<open>y\<close> and the printed \<open>t\<close>. A printed value has exactly
  one digit after the decimal point and is within a twentieth of the value; the printed
  \<open>t\<close> reads back as \<open>t\<close>. And when the sensor measures 42 degrees and 55 percent at
  time 1700000000, \<open>read_dht_data\<close> followed by the formatting gives the text with the
  lines \<open>... 22.0 1700000000\<close> and \<open>... 55.0 1700000000\<close>.
\<close>

theorem present_reading_renders_values:
  \<open>prometheus_output (Some x) (Some y) t
       = Returns (value_output (format_1f x) (format_1f y) (str_int t))
     \<and> split_lines (value_output (format_1f x) (format_1f y) (str_int t)) =
       [[],
        ''# HELP temperature Temperature from DHT11 sensor'',
        ''# TYPE temperature gauge'',
        ''temperature{sensor="dht11",location="GH_trial"} '' @ format_1f x @ '' '' @ str_int t,
        [],
        ''# HELP Humidity Temperature from DHT11 sensor'',
        ''# TYPE Humidity gauge'',
        ''humidity{sensor="dht11",location="GH_trial"} '' @ format_1f y @ '' '' @ str_int t,
        [], []]
     \<and> one_decimal (format_1f x) \<and> one_decimal (format_1f y)
     \<and> \<bar>tenths_value (format_1f x) - x\<bar> \<le> 1 / 20
     \<and> \<bar>tenths_value (format_1f y) - y\<bar> \<le> 1 / 20
     \<and> int_of_digits (str_int t) = t
     \<and> (e_measure env = Returns u \<and> e_temperature env = Returns 42
          \<and> e_humidity env = Returns 55 \<and> e_time env = 1700000000 \<longrightarrow>
        (case read_dht_data env of
           Raises e \<Rightarrow> False
         | Returns (temp, hum) \<Rightarrow>
             prometheus_output temp hum (e_time env) = Returns ''\<newline># HELP temperature Temperature from DHT11 sensor\<newline># TYPE temperature gauge\<newline>temperature{sensor="dht11",location="GH_trial"} 22.0 1700000000\<newline>\<newline># HELP Humidity Temperature from DHT11 sensor\<newline># TYPE Humidity gauge\<newline>humidity{sensor="dht11",location="GH_trial"} 55.0 1700000000\<newline>\<newline>''))\<close>
proof -
  have a: "prometheus_output (Some x) (Some y) t
       = Returns (value_output (format_1f x) (format_1f y) (str_int t))"
    by (simp add: prometheus_output_def format_field_def)
  have b: \<open>e_measure env = Returns u \<and> e_temperature env = Returns 42
          \<and> e_humidity env = Returns 55 \<and> e_time env = 1700000000 \<longrightarrow>
        (case read_dht_data env of
           Raises e \<Rightarrow> False
         | Returns (temp, hum) \<Rightarrow>
             prometheus_output temp hum (e_time env) = Returns ''\<newline># HELP temperature Temperature from DHT11 sensor\<newline># TYPE temperature gauge\<newline>temperature{sensor="dht11",location="GH_trial"} 22.0 1700000000\<newline>\<newline># HELP Humidity Temperature from DHT11 sensor\<newline># TYPE Humidity gauge\<newline>humidity{sensor="dht11",location="GH_trial"} 55.0 1700000000\<newline>\<newline>'')\<close>
    by (simp add: read_dht_data_def measure_and_read_def prometheus_output_def format_field_def
        format_1f_def round_half_even_def str_int_def str_nat.simps digit_char_def
        value_output_def)
  from a b show ?thesis
    using value_output_lines [OF no_break_format_1f [of x] no_break_format_1f [of y] no_break_str_int [of t]]
      one_decimal_format_1f [of x] one_decimal_format_1f [of y]
      tenths_value_format_1f [of x] tenths_value_format_1f [of y] int_of_digits_str_int [of t]
    by blast
qed

theorem present_reading_renders_values_witness:
  \<open>prometheus_output (Some (9 / 4)) (Some (111 / 2)) 1700000000 = Returns ''\<newline># HELP temperature Temperature from DHT11 sensor\<newline># TYPE temperature gauge\<newline>temperature{sensor="dht11",location="GH_trial"} 2.2 1700000000\<newline>\<newline># HELP Humidity Temperature from DHT11 sensor\<newline># TYPE Humidity gauge\<newline>humidity{sensor="dht11",location="GH_trial"} 55.5 1700000000\<newline>\<newline>''
     \<and> e_measure example_env = Returns () \<and> e_temperature example_env = Returns 42
     \<and> e_humidity example_env = Returns 55 \<and> e_time example_env = 1700000000
     \<and> read_dht_data example_env = Returns (Some 22, Some 55)
     \<and> prometheus_output (Some 22) (Some 55) 1700000000 = Returns ''\<newline># HELP temperature Temperature from DHT11 sensor\<newline># TYPE temperature gauge\<newline>temperature{sensor="dht11",location="GH_trial"} 22.0 1700000000\<newline>\<newline># HELP Humidity Temperature from DHT11 sensor\<newline># TYPE Humidity gauge\<newline>humidity{sensor="dht11",location="GH_trial"} 55.0 1700000000\<newline>\<newline>''\<close>
proof -
  have "\<lfloor>(45::rat) / 2\<rfloor> = 22"
    by (simp add: floor_eq_iff)
  then have r: "round_half_even (\<bar>9 / 4\<bar> * 10) = 22" "round_half_even (\<bar>111 / 2\<bar> * 10) = 555"
    by (simp_all add: round_half_even_def Let_def)
  have f: "format_1f (9 / 4) = ''2.2''" "format_1f (111 / 2) = ''55.5''"
    unfolding format_1f_def r by (simp_all add: str_nat.simps digit_char_def)
  from present_reading_renders_values [where x = "9 / 4" and y = "111 / 2" and t = 1700000000
      and env = example_env and u = "()"]
  show ?thesis
    by (simp add: f example_env_def read_dht_data_def measure_and_read_def
        str_int_def str_nat.simps digit_char_def value_output_def)
qed

text \<open>
  Claim C6, as amended. At the same time \<open>t\<close>, the text for absent values and the text
  for present values have the same lines once the empty lines are left out, in the same
  order: the same \<open>HELP\<close> and \<open>TYPE\<close> lines, the same metric names and labels, and
  sample lines that differ only in the value, \<open>NaN\<close> in the one and the printed value in
  the other.
\<close>

theorem bodies_agree_on_nonblank_lines:
  \<open>prometheus_output None None t = Returns (nan_output (str_int t))
     \<and> prometheus_output (Some x) (Some y) t
         = Returns (value_output (format_1f x) (format_1f y) (str_int t))
     \<and> nonblank_lines (nan_output (str_int t)) =
       [''# HELP temperature Temperature from DHT11 sensor'',
        ''# TYPE temperature gauge'',
        ''temperature{sensor="dht11",location="GH_trial"} '' @ ''NaN'' @ '' '' @ str_int t,
        ''# HELP Humidity Temperature from DHT11 sensor'',
        ''# TYPE Humidity gauge'',
        ''humidity{sensor="dht11",location="GH_trial"} '' @ ''NaN'' @ '' '' @ str_int t]
     \<and> nonblank_lines (value_output (format_1f x) (format_1f y) (str_int t)) =
       [''# HELP temperature Temperature from DHT11 sensor'',
        ''# TYPE temperature gauge'',
        ''temperature{sensor="dht11",location="GH_trial"} '' @ format_1f x @ '' '' @ str_int t,
        ''# HELP Humidity Temperature from DHT11 sensor'',
        ''# TYPE Humidity gauge'',
        ''humidity{sensor="dht11",location="GH_trial"} '' @ format_1f y @ '' '' @ str_int t]\<close>
proof -
  have a: "prometheus_output (Some x) (Some y) t
       = Returns (value_output (format_1f x) (format_1f y) (str_int t))"
    by (simp add: prometheus_output_def format_field_def)
  have b: "prometheus_output None None t = Returns (nan_output (str_int t))"
    by (simp add: prometheus_output_def)
  show ?thesis
    unfolding a b nonblank_lines_def
      nan_output_lines [OF no_break_str_int [of t]]
      value_output_lines [OF no_break_format_1f [of x] no_break_format_1f [of y] no_break_str_int [of t]]
    by simp
qed

theorem bodies_agree_on_nonblank_lines_witness:
  \<open>nonblank_lines (nan_output ''1700000000'') =
       [''# HELP temperature Temperature from DHT11 sensor'',
        ''# TYPE temperature gauge'',
        ''temperature{sensor="dht11",location="GH_trial"} NaN 1700000000'',
        ''# HELP Humidity Temperature from DHT11 sensor'',
        ''# TYPE Humidity gauge'',
        ''humidity{sensor="dht11",location="GH_trial"} NaN 1700000000'']
     \<and> nonblank_lines (value_output ''22.0'' ''55.0'' ''1700000000'') =
       [''# HELP temperature Temperature from DHT11 sensor'',
        ''# TYPE temperature gauge'',
        ''temperature{sensor="dht11",location="GH_trial"} 22.0 1700000000'',
        ''# HELP Humidity Temperature from DHT11 sensor'',
        ''# TYPE Humidity gauge'',
        ''humidity{sensor="dht11",location="GH_trial"} 55.0 1700000000'']\<close>
  using bodies_agree_on_nonblank_lines [of 1700000000 22 55]
  by (simp add: format_1f_def round_half_even_def str_int_def str_nat.simps digit_char_def)

text \<open>
  The claim as it stands fails, because the two texts differ in their empty lines: at
  time 1700000000 the text for the values 22 and 55 is the second template, and the
  text for absent values is not that template with \<open>NaN\<close> in place of the values; the one
  has ten lines and the other twelve.
\<close>

theorem nan_body_has_other_layout:
  \<open>prometheus_output (Some 22) (Some 55) 1700000000
       = Returns (value_output ''22.0'' ''55.0'' ''1700000000'')
     \<and> prometheus_output None None 1700000000
       \<noteq> Returns (value_output ''NaN'' ''NaN'' ''1700000000'')
     \<and> length (split_lines (value_output ''NaN'' ''NaN'' ''1700000000'')) = 10
     \<and> (case prometheus_output None None 1700000000 of
          Returns body \<Rightarrow> length (split_lines body) = 12
        | Raises e \<Rightarrow> False)\<close>
  by (simp add: prometheus_output_def format_field_def format_1f_def round_half_even_def
      str_int_def str_nat.simps digit_char_def value_output_def nan_output_def)

text \<open>
  Claim C7, as amended. Two requests that the decoder accepts get the same treatment,
  whatever their bytes: with all other calls of the iteration answering alike, the
  iteration ends in the same way with the same trace, so the same bytes are handed to
  \<open>send\<close>. (A request that the decoder rejects gets no response, which is why the claim
  does not hold for all requests.)
\<close>

theorem decodable_requests_same_response:
  assumes "decode r1 = Returns q1" and "decode r2 = Returns q2"
  shows "iteration decode (env\<lparr>e_recv := Returns r1\<rparr>) st
       = iteration decode (env\<lparr>e_recv := Returns r2\<rparr>) st"
  using serve_client_decoded [OF assms]
  by (simp add: iteration_def try_serve_def ignores_recv_check_link cong: result.case_cong)

theorem decodable_requests_same_response_witness:
  "utf8_decode ''GET /metrics HTTP/1.1'' = Returns ''GET /metrics HTTP/1.1''
     \<and> utf8_decode ''POST / HTTP/1.0'' = Returns ''POST / HTTP/1.0''
     \<and> iteration utf8_decode (example_env\<lparr>e_recv := Returns ''GET /metrics HTTP/1.1''\<rparr>) example_state
       = iteration utf8_decode (example_env\<lparr>e_recv := Returns ''POST / HTTP/1.0''\<rparr>) example_state"
proof -
  have h: "utf8_decode ''GET /metrics HTTP/1.1'' = Returns ''GET /metrics HTTP/1.1''"
    "utf8_decode ''POST / HTTP/1.0'' = Returns ''POST / HTTP/1.0''"
    by (simp_all add: utf8_decode_def)
  from decodable_requests_same_response [OF h, of example_env example_state] h
  show ?thesis by simp
qed

text \<open>
  The claim as it stands fails: the request \<open>GET /metrics HTTP/1.1\<close> is answered with
  the header and the text, the request that is the single byte \<open>0xFF\<close> with nothing.
\<close>

theorem request_bytes_change_response:
  "sent_to 1 (result_trace (iteration utf8_decode example_env example_state))
     \<noteq> sent_to 1 (result_trace
          (iteration utf8_decode (example_env\<lparr>e_recv := Returns [CHR 0xFF]\<rparr>) example_state))"
proof -
  have "sent_to 1 (result_trace
          (iteration utf8_decode (example_env\<lparr>e_recv := Returns [CHR 0xFF]\<rparr>) example_state)) = []"
    by (simp add: iteration_def check_link_def try_serve_def serve_client_def example_env_def
        example_state_def utf8_decode_def emit_def)
  moreover have "sent_to 1 (result_trace (iteration utf8_decode example_env example_state)) \<noteq> []"
    by (simp add: example_iteration sent_to_append http_header_def)
  ultimately show ?thesis by simp
qed

text \<open>
  Claim C8. When the credentials cannot be loaded (the import of \<open>secrets\<close> raises, or
  the reading of \<open>ssid\<close> or \<open>password\<close> does), the process ends with an exception
  after nothing but the switching off of the LED: no \<open>wlan.connect\<close>, no \<open>bind\<close>, no
  \<open>listen\<close>, and no iteration of the loop, whatever would have come. The exception is
  the one of the import, unless the reading of the MAC address has ended the process
  before.
\<close>

theorem no_credentials_no_network:
  assumes "b_secrets boot = Raises e"
  shows "program decode boot envs =
     Halt (case b_mac boot of
             Raises m \<Rightarrow> if is_OSError m then e else m
           | Returns _ \<Rightarrow> e) [LedOff]"
  using assms by (simp add: program_def startup_def split: outcome.splits)

theorem no_credentials_no_network_witness:
  "b_secrets (example_boot\<lparr>b_secrets := Raises ImportError\<rparr>) = Raises ImportError
     \<and> program utf8_decode (example_boot\<lparr>b_secrets := Raises ImportError\<rparr>) [example_env]
         = Halt ImportError [LedOff]"
  using no_credentials_no_network
    [of "example_boot\<lparr>b_secrets := Raises ImportError\<rparr>" ImportError utf8_decode "[example_env]"]
  by (simp add: example_boot_def)

text \<open>
  Claim C9. A call of \<open>read_dht_data\<close> that returns gives either both values or
  \<open>(None, None)\<close>, never one value alone; a call that does not return raises an
  exception that is no \<open>OSError\<close>. On what it returns, the text with \<open>NaN\<close> is produced
  exactly when both values are absent.
\<close>

theorem read_dht_data_all_or_nothing:
  "(case read_dht_data env of
      Raises e \<Rightarrow> \<not> is_OSError e
    | Returns (temp, hum) \<Rightarrow>
        (temp = None \<longleftrightarrow> hum = None) \<and>
        (prometheus_output temp hum t = Returns (nan_output (str_int t))
           \<longleftrightarrow> temp = None \<and> hum = None))"
proof (cases "read_dht_data env")
  case (Raises e)
  then show ?thesis using read_dht_data_raises [of env e] by simp
next
  case (Returns p)
  obtain temp hum where p: "p = (temp, hum)" by (cases p)
  from Returns p read_dht_data_pair [of env temp hum]
  consider "temp = None \<and> hum = None" | x y where "temp = Some x" "hum = Some y"
    by auto
  then show ?thesis
  proof cases
    case 1
    then show ?thesis using Returns p by (simp add: prometheus_output_def)
  next
    case 2
    then show ?thesis using Returns p nan_differs_from_value [of "str_int t"]
      by (simp add: prometheus_output_def format_field_def) metis
  qed
qed

theorem read_dht_data_all_or_nothing_witness:
  "read_dht_data (example_env\<lparr>e_measure := Raises OSError\<rparr>) = Returns (None, None)
     \<and> prometheus_output None None 7 = Returns (nan_output (str_int 7))
     \<and> read_dht_data example_env = Returns (Some 22, Some 55)
     \<and> prometheus_output (Some 22) (Some 55) 7 \<noteq> Returns (nan_output (str_int 7))"
  using read_dht_data_all_or_nothing
      [where env = "example_env\<lparr>e_measure := Raises OSError\<rparr>" and t = 7]
    read_dht_data_all_or_nothing [where env = example_env and t = 7]
  by (simp add: example_env_def read_dht_data_def measure_and_read_def)

text \<open>
  Claim C10, as amended. In an iteration whose link check has come through, when a
  client has been accepted, \<open>recv\<close> has returned bytes and the decoder raises an
  \<open>Exception\<close> on them, the iteration ends and the loop goes on; all that has happened
  is the accepting: nothing was handed to \<open>send\<close> for this client, \<open>close\<close> was not
  called, and the connection is still open. The condition is that the decoder rejects
  the bytes, which is less than that they are not valid UTF-8.
\<close>

theorem undecodable_request_no_response:
  assumes "check_link env st = Next st1"
    and "e_accept env = Returns (c, a)" and "e_recv env = Returns received"
    and "decode received = Raises e" and "is_Exception e"
  shows "iteration decode env st = Next (st1\<lparr>trace := trace st1 @ [Accepted c a]\<rparr>)
     \<and> sent_to c (result_trace (iteration decode env st)) = sent_to c (trace st1)
     \<and> open_conns (result_trace (iteration decode env st)) = open_conns (trace st1) @ [c]"
proof -
  have "iteration decode env st = Next (st1\<lparr>trace := trace st1 @ [Accepted c a]\<rparr>)"
    using assms by (simp add: iteration_def try_serve_def serve_client_def emit_def)
  then show ?thesis
    by (simp add: sent_to_append open_conns_def open_after_append)
qed

theorem undecodable_request_no_response_witness:
  "check_link (example_env\<lparr>e_recv := Returns [CHR 0xFF]\<rparr>) example_state = Next example_state
     \<and> e_accept (example_env\<lparr>e_recv := Returns [CHR 0xFF]\<rparr>) = Returns (1, ''192.168.1.9'')
     \<and> e_recv (example_env\<lparr>e_recv := Returns [CHR 0xFF]\<rparr>) = Returns [CHR 0xFF]
     \<and> utf8_decode [CHR 0xFF] = Raises UnicodeError
     \<and> is_Exception UnicodeError
     \<and> iteration utf8_decode (example_env\<lparr>e_recv := Returns [CHR 0xFF]\<rparr>) example_state
         = Next (example_state\<lparr>trace := trace example_state @ [Accepted 1 ''192.168.1.9'']\<rparr>)"
proof -
  have h: "check_link (example_env\<lparr>e_recv := Returns [CHR 0xFF]\<rparr>) example_state = Next example_state"
    "e_accept (example_env\<lparr>e_recv := Returns [CHR 0xFF]\<rparr>) = Returns (1, ''192.168.1.9'')"
    "e_recv (example_env\<lparr>e_recv := Returns [CHR 0xFF]\<rparr>) = Returns [CHR 0xFF]"
    "utf8_decode [CHR 0xFF] = Raises UnicodeError"
    "is_Exception UnicodeError"
    by (simp_all add: check_link_def example_env_def utf8_decode_def)
  from undecodable_request_no_response
      [where decode = utf8_decode and env = "example_env\<lparr>e_recv := Returns [CHR 0xFF]\<rparr>"
        and st = example_state and ?st1.0 = example_state and c = 1
        and a = "''192.168.1.9''" and received = "[CHR 0xFF]" and e = UnicodeError] h
  show ?thesis
    by simp
qed

text \<open>
  The claim as it stands fails, because a decoder need not reject all that is not valid
  UTF-8: the two bytes \<open>0xC0 0x80\<close>, an overlong form, are not valid UTF-8, yet a
  decoder that looks at the form of the bytes only, as the example decoder does,
  accepts them, and the client gets the header and the text and the connection is
  closed, as for any other request.
\<close>

theorem overlong_request_gets_response:
  "\<not> valid_utf8 [CHR 0xC0, CHR 0x80]
   \<and> utf8_decode [CHR 0xC0, CHR 0x80] = Returns [CHR 0xC0, CHR 0x80]
   \<and> iteration utf8_decode (example_env\<lparr>e_recv := Returns [CHR 0xC0, CHR 0x80]\<rparr>) example_state
       = Next (example_state\<lparr>trace := trace example_state @
           [Accepted 1 ''192.168.1.9'',
            Send 1 http_header,
            Send 1 (encode (value_output ''22.0'' ''55.0'' ''1700000000'')),
            Close 1]\<rparr>)"
proof -
  have d: "utf8_decode [CHR 0xC0, CHR 0x80] = Returns [CHR 0xC0, CHR 0x80]"
    by (simp add: utf8_decode_def)
  have g: "utf8_decode ''GET /metrics HTTP/1.1'' = Returns ''GET /metrics HTTP/1.1''"
    by (simp add: utf8_decode_def)
  have "iteration utf8_decode (example_env\<lparr>e_recv := Returns [CHR 0xC0, CHR 0x80]\<rparr>) example_state
      = iteration utf8_decode (example_env\<lparr>e_recv := Returns ''GET /metrics HTTP/1.1''\<rparr>) example_state"
    using serve_client_decoded [OF d g, of example_env]
    by (simp add: iteration_def try_serve_def ignores_recv_check_link cong: result.case_cong)
  also have "example_env\<lparr>e_recv := Returns ''GET /metrics HTTP/1.1''\<rparr> = example_env"
    by (simp add: example_env_def)
  finally show ?thesis
    using d by (simp add: example_iteration valid_utf8_def encode_def value_output_def)
qed

end
